theory Spec2Isabelle
  imports Main
begin

section \<open>The agent pool of \<open>agent/agent_pool.go\<close>\<close>

text \<open>
  \<open>AgentPool.Start\<close> registers one agent with the remote service, connects a worker,
  arms the signal watcher, blocks in the worker's \<open>Start\<close>, disconnects and reports the
  outcome. Everything the code does to the outside (log lines, calls on the API client and
  on the worker, sleeps) is recorded as a trace of events; everything the outside answers
  (the service's responses, the worker's results, the signals that arrive) is read from an
  environment record. A Go \<open>error\<close> is its message, \<open>nil\<close> is \<open>None\<close>.
\<close>

subsection \<open>Data\<close>

type_synonym error = string

type_synonym duration = int

text \<open>\<open>api.Agent\<close>: the fields \<open>CreateAgentTemplate\<close> and \<open>Start\<close> touch.\<close>

record Agent =
  Name :: string
  Priority :: string
  MetaData :: "string list"
  ScriptEvalEnabled :: bool
  Version :: string
  PID :: int
  Hostname :: string
  OS :: string

text \<open>\<open>api.Response\<close>: the closure in \<open>RegisterAgent\<close> reads its status code only.\<close>

record Response =
  StatusCode :: int

text \<open>\<open>AgentConfiguration\<close>: the fields this file reads.\<close>

record AgentConfiguration =
  BootstrapScript :: string
  BuildPath :: string
  HooksPath :: string
  AutoSSHFingerprintVerification :: bool
  CommandEval :: bool
  RunInPty :: bool
  ExitWithStatus :: bool

text \<open>
  \<open>AgentPool\<close>. The pool's \<open>Name\<close>, \<open>Priority\<close> and \<open>MetaData\<close> carry the prefix
  \<open>pool\<close>, since a record field is a constant and \<open>Agent\<close> has fields of the same names.
  The configuration pointer is taken non-nil.
\<close>

record AgentPool =
  Token :: string
  ConfigFilePath :: string
  poolName :: string
  poolPriority :: string
  poolMetaData :: "string list"
  MetaDataEC2Tags :: bool
  Endpoint :: string
  AgentConfiguration :: AgentConfiguration

text \<open>
  Modelled from the spec: \<open>signalwatcher.Signal\<close> is declared outside this file; the
  source names one value, \<open>QUIT\<close>, and prints any signal through \<open>String()\<close>. Every other
  signal kind is \<open>OtherSignal\<close> with its printed name.
\<close>

datatype Signal = QUIT | OtherSignal string

fun String :: "Signal \<Rightarrow> string" where
  "String QUIT = ''QUIT''"
| "String (OtherSignal n) = n"

datatype level = DEBUG | INFO | NOTICE | WARN | ERROR | FATAL

text \<open>An argument of a log call, kept as passed (the formatting is the logger's).\<close>

datatype arg = AStr string | AInt int | AErr error | AList "string list" | AStats int

datatype event =
    Banner bool
  | Log level string "arg list"
  | EC2TagsGet
  | Register Agent
  | Sleep duration
  | WorkerConnect
  | SignalWatch
  | WorkerStart
  | WorkerStop
  | WorkerDisconnect

text \<open>What \<open>worker.Start()\<close> does: it blocks for ever, or it returns an error or nil.\<close>

datatype start_result = StartBlocks | StartReturns "error option"

text \<open>
  The environment of one run. \<open>envRegister n a\<close> is the service's answer to the call
  number \<open>n\<close> (counted from 0) of \<open>APIClient.Agents.Register(a)\<close>: the agent, the response
  and the error, each of which may be nil. \<open>envEC2Tags\<close> is the result of
  \<open>EC2Tags{}.Get()\<close>, the tags in the order the \<open>range\<close> loop visits them. \<open>envSignals\<close>
  are the signals the watcher delivers while \<open>worker.Start()\<close> is blocked.
\<close>

record Env =
  envVersion :: string
  envPID :: int
  envHostname :: string
  envOSDump :: string
  envColorsEnabled :: bool
  envEC2Tags :: "error + (string \<times> string) list"
  envRegister :: "nat \<Rightarrow> Agent \<Rightarrow> Agent option \<times> Response option \<times> error option"
  envConnect :: "error option"
  envSignals :: "Signal list"
  envStart :: start_result
  envExitStatus :: int

subsection \<open>The retry engine\<close>

text \<open>
  Modelled from the spec: \<open>retry.Do\<close>, \<open>retry.Config\<close> and \<open>retry.Stats\<close> are not in
  \<open>agent_pool.go\<close>. Section 4.1 of the specification: attempt 1 runs immediately; a
  success returns nil at once; after a failing attempt the engine returns that error when
  the operation asked to abort, and when no attempts remain; otherwise it sleeps for
  \<open>Interval\<close> and tries again. The operation reads the retry state and may ask to abort
  (\<open>s.Break()\<close>): it answers with its error, whether it asked to abort, and its own new
  state; a panic inside it leaves the engine.
\<close>

record Config =
  Maximum :: int
  Interval :: duration

record Stats =
  Attempt :: int
  StatsConfig :: Config

datatype 's op_result = OpPanic 's | OpReturn "error option" bool 's

datatype retry_result = RetryPanic | RetryDone "error option"

text \<open>What the engine itself did, in order: it invoked the operation, it slept.\<close>

datatype retry_event = Invoked int | Slept duration

function retry_loop ::
  "(Stats \<Rightarrow> 's \<Rightarrow> 's op_result) \<Rightarrow> (duration \<Rightarrow> 's \<Rightarrow> 's) \<Rightarrow> Config \<Rightarrow> int \<Rightarrow> 's
    \<Rightarrow> retry_result \<times> 's \<times> retry_event list" where
  "retry_loop callback sleep config n st =
     (case callback \<lparr>Attempt = n, StatsConfig = config\<rparr> st of
        OpPanic st' \<Rightarrow> (RetryPanic, st', [Invoked n])
      | OpReturn None brk st' \<Rightarrow> (RetryDone None, st', [Invoked n])
      | OpReturn (Some e) brk st' \<Rightarrow>
          if brk then (RetryDone (Some e), st', [Invoked n])
          else if Maximum config \<le> n then (RetryDone (Some e), st', [Invoked n])
          else (case retry_loop callback sleep config (n + 1) (sleep (Interval config) st') of
                  (r, st'', evs) \<Rightarrow> (r, st'', Invoked n # Slept (Interval config) # evs)))"
  by pat_completeness auto
termination
  by (relation "measure (\<lambda>(callback, sleep, config, n, st). nat (Maximum config - n))") auto

declare retry_loop.simps [simp del]

definition Do ::
  "(Stats \<Rightarrow> 's \<Rightarrow> 's op_result) \<Rightarrow> (duration \<Rightarrow> 's \<Rightarrow> 's) \<Rightarrow> Config \<Rightarrow> 's
    \<Rightarrow> retry_result \<times> 's \<times> retry_event list" where
  "Do callback sleep config st = retry_loop callback sleep config 1 st"

subsection \<open>The banner and the agent template\<close>

text \<open>
  \<open>ShowBanner\<close>: the banner goes to the logger's pipe, with or without colours; the log
  lines follow in the source's order. The process id is passed already printed by
  \<open>fmt.Sprintf("%d", ...)\<close>; the model keeps the number.
\<close>

definition ShowBanner :: "AgentPool \<Rightarrow> Env \<Rightarrow> event list" where
  "ShowBanner r env =
     [Banner (envColorsEnabled env),
      Log NOTICE ''Starting buildkite-agent v%s with PID: %s'' [AStr (envVersion env), AInt (envPID env)],
      Log NOTICE ''The agent source code can be found here: https://github.com/buildkite/agent'' [],
      Log NOTICE ''For questions and support, email us at: hello@buildkite.com'' []]
     @ (if ConfigFilePath r \<noteq> [] then [Log INFO ''Configuration loaded from: %s'' [AStr (ConfigFilePath r)]] else [])
     @ [Log DEBUG ''Bootstrap script: %s'' [AStr (BootstrapScript (AgentConfiguration r))],
        Log DEBUG ''Build path: %s'' [AStr (BuildPath (AgentConfiguration r))],
        Log DEBUG ''Hooks directory: %s'' [AStr (HooksPath (AgentConfiguration r))]]
     @ (if \<not> AutoSSHFingerprintVerification (AgentConfiguration r)
        then [Log DEBUG ''Automatic SSH fingerprint verification has been disabled'' []] else [])
     @ (if \<not> CommandEval (AgentConfiguration r)
        then [Log DEBUG ''Evaluating console commands has been disabled'' []] else [])
     @ (if \<not> RunInPty (AgentConfiguration r)
        then [Log DEBUG ''Running builds within a pseudoterminal (PTY) has been disabled'' []] else [])"

text \<open>
  The \<open>range\<close> loop over the tags: each one is appended to the agent's meta-data as
  \<open>fmt.Sprintf("%s=%s", tag, value)\<close>.
\<close>

fun append_tags :: "Agent \<Rightarrow> (string \<times> string) list \<Rightarrow> Agent" where
  "append_tags agent [] = agent"
| "append_tags agent ((tag, val) # tags) =
     append_tags (agent\<lparr>MetaData := MetaData agent @ [tag @ ''='' @ val]\<rparr>) tags"

text \<open>
  \<open>CreateAgentTemplate\<close> returns the template and what it did on the way. A failed tag
  lookup is logged through \<open>logger.Error\<close> with the message already formatted.
\<close>

definition CreateAgentTemplate :: "AgentPool \<Rightarrow> Env \<Rightarrow> Agent \<times> event list" where
  "CreateAgentTemplate r env =
     (let agent = \<lparr>Name = poolName r,
                   Priority = poolPriority r,
                   MetaData = poolMetaData r,
                   ScriptEvalEnabled = CommandEval (AgentConfiguration r),
                   Version = envVersion env,
                   PID = envPID env,
                   Hostname = [],
                   OS = []\<rparr>;
          (agent, t) =
            (if MetaDataEC2Tags r then
               (case envEC2Tags env of
                  Inl err \<Rightarrow> (agent, [EC2TagsGet, Log ERROR (''Failed to find EC2 Tags: '' @ err) []])
                | Inr tags \<Rightarrow> (append_tags agent tags, [EC2TagsGet]))
             else (agent, []))
      in (agent\<lparr>Hostname := envHostname env, OS := envOSDump env\<rparr>, t))"

subsection \<open>Registration\<close>

text \<open>
  The variables \<open>registered\<close>, \<open>resp\<close> and \<open>err\<close> that the closure \<open>register\<close> captures,
  with the number of calls made to the service and the trace so far.
\<close>

record RegState =
  registered :: "Agent option"
  resp :: "Response option"
  err :: "error option"
  calls :: nat
  trace :: "event list"

text \<open>
  The closure \<open>register\<close>. After a failed call it reads \<open>resp.StatusCode\<close> whatever
  \<open>resp\<close> is: on a nil response that is a nil dereference, a panic.
\<close>

definition register :: "Env \<Rightarrow> Agent \<Rightarrow> Stats \<Rightarrow> RegState \<Rightarrow> RegState op_result" where
  "register env agent s st =
     (case envRegister env (calls st) agent of (a, rs, e) \<Rightarrow>
        (let st1 = st\<lparr>registered := a, resp := rs, err := e, calls := calls st + 1,
                      trace := trace st @ [Register agent]\<rparr>
         in case e of
              None \<Rightarrow> OpReturn None False st1
            | Some m \<Rightarrow>
                (case rs of
                   None \<Rightarrow> OpPanic st1
                 | Some rsp \<Rightarrow>
                     if StatusCode rsp = 401
                     then OpReturn (Some m) True
                            (st1\<lparr>trace := trace st1 @ [Log WARN ''Buildkite rejected the registration (%s)'' [AErr m]]\<rparr>)
                     else OpReturn (Some m) False
                            (st1\<lparr>trace := trace st1 @ [Log WARN ''%s (%s)'' [AErr m, AStats (Attempt s)]]\<rparr>))))"

text \<open>\<open>time.Sleep\<close> between two attempts, as the trace sees it.\<close>

definition sleep_for :: "duration \<Rightarrow> RegState \<Rightarrow> RegState" where
  "sleep_for d st = st\<lparr>trace := trace st @ [Sleep d]\<rparr>"

definition Second :: duration where
  "Second = 1000000000"

datatype register_result = RegisterPanic | RegisterReturn "Agent option" "error option"

definition RegisterAgent :: "Env \<Rightarrow> Agent \<Rightarrow> register_result \<times> event list" where
  "RegisterAgent env agent =
     (case Do (register env agent) sleep_for \<lparr>Maximum = 30, Interval = 1 * Second\<rparr>
             \<lparr>registered = None, resp = None, err = None, calls = 0, trace = []\<rparr> of
        (RetryPanic, st, evs) \<Rightarrow> (RegisterPanic, trace st)
      | (RetryDone e, st, evs) \<Rightarrow> (RegisterReturn (registered st) e, trace st))"

subsection \<open>The orchestrator\<close>

text \<open>How one run of the process ends.\<close>

datatype outcome =
    Returned "error option"
  | Exited int
  | FatalExit
  | Panicked
  | Blocked

text \<open>
  Modelled from the spec: \<open>logger.Fatal\<close> is not in \<open>agent_pool.go\<close>. Section 7 of the
  specification: a fatal condition terminates the process after logging a message.
\<close>

definition Fatal :: "string \<Rightarrow> arg list \<Rightarrow> event list \<Rightarrow> outcome \<times> event list" where
  "Fatal fmt args t = (FatalExit, t @ [Log FATAL fmt args])"

text \<open>The callback handed to \<open>signalwatcher.Watch\<close>.\<close>

definition onSignal :: "Signal \<Rightarrow> event list" where
  "onSignal sig =
     (if sig = QUIT then [Log DEBUG ''Received signal `%s`'' [AStr (String sig)], WorkerStop]
      else [Log DEBUG ''Ignoring signal `%s`'' [AStr (String sig)]])"

text \<open>
  \<open>AgentPool.Start\<close>. \<open>registered.Name\<close> on a nil agent is a nil dereference. The
  signals of the environment reach the callback while \<open>worker.Start()\<close> is blocked.
\<close>

definition Start :: "AgentPool \<Rightarrow> Env \<Rightarrow> outcome \<times> event list" where
  "Start r env =
     (let t = ShowBanner r env;
          (template, t1) = CreateAgentTemplate r env;
          t = t @ t1 @ [Log INFO ''Registering agent with Buildkite...'' []]
      in case RegisterAgent env template of
           (RegisterPanic, t2) \<Rightarrow> (Panicked, t @ t2)
         | (RegisterReturn reg (Some e), t2) \<Rightarrow> Fatal ''%s'' [AErr e] (t @ t2)
         | (RegisterReturn None None, t2) \<Rightarrow> (Panicked, t @ t2)
         | (RegisterReturn (Some agent) None, t2) \<Rightarrow>
             (let t = t @ t2 @ [Log INFO (''Successfully registered agent '' @ [CHR 0x22] @ ''%s''
                                          @ [CHR 0x22] @ '' with meta-data %s'')
                                  [AStr (Name agent), AList (MetaData agent)],
                                Log INFO ''Connecting to Buildkite...'' [],
                                WorkerConnect]
              in case envConnect env of
                   Some e \<Rightarrow> Fatal ''%s'' [AErr e] t
                 | None \<Rightarrow>
                     (let t = t @ [Log INFO ''Agent successfully connected'' [],
                                   Log INFO ''You can press Ctrl-C to stop the agent'' [],
                                   Log INFO ''Waiting for work...'' [],
                                   SignalWatch,
                                   WorkerStart]
                                @ concat (map onSignal (envSignals env))
                      in case envStart env of
                           StartBlocks \<Rightarrow> (Blocked, t)
                         | StartReturns (Some e) \<Rightarrow> Fatal ''%s'' [AErr e] t
                         | StartReturns None \<Rightarrow>
                             (let t = t @ [Log INFO ''Disconnecting %s...'' [AStr (Name agent)],
                                           WorkerDisconnect]
                              in if ExitWithStatus (AgentConfiguration r)
                                 then (Exited (envExitStatus env), t)
                                 else (Returned None, t)))))"

subsection \<open>Notions for the statements\<close>

text \<open>The events of the worker and of the signal watcher, against log lines and API calls.\<close>

fun worker_event :: "event \<Rightarrow> bool" where
  "worker_event WorkerConnect = True"
| "worker_event SignalWatch = True"
| "worker_event WorkerStart = True"
| "worker_event WorkerStop = True"
| "worker_event WorkerDisconnect = True"
| "worker_event _ = False"

fun log_event :: "event \<Rightarrow> bool" where
  "log_event (Log l f as) = True"
| "log_event _ = False"

text \<open>The trace of a run up to the return of \<open>RegisterAgent\<close>.\<close>

definition startup :: "AgentPool \<Rightarrow> Env \<Rightarrow> event list" where
  "startup r env =
     ShowBanner r env @ snd (CreateAgentTemplate r env)
     @ [Log INFO ''Registering agent with Buildkite...'' []]
     @ snd (RegisterAgent env (fst (CreateAgentTemplate r env)))"

text \<open>The events from the registered agent to the call of \<open>worker.Connect()\<close>.\<close>

definition connecting :: "Agent \<Rightarrow> event list" where
  "connecting agent =
     [Log INFO (''Successfully registered agent '' @ [CHR 0x22] @ ''%s''
                @ [CHR 0x22] @ '' with meta-data %s'')
        [AStr (Name agent), AList (MetaData agent)],
      Log INFO ''Connecting to Buildkite...'' [],
      WorkerConnect]"

text \<open>The events from a successful connect to the end of the blocking \<open>worker.Start()\<close>.\<close>

definition running :: "Env \<Rightarrow> event list" where
  "running env =
     [Log INFO ''Agent successfully connected'' [],
      Log INFO ''You can press Ctrl-C to stop the agent'' [],
      Log INFO ''Waiting for work...'' [],
      SignalWatch,
      WorkerStart]
     @ concat (map onSignal (envSignals env))"

text \<open>The two kinds of engine events, and the sleeps of a trace.\<close>

fun invoked :: "retry_event \<Rightarrow> bool" where
  "invoked (Invoked n) = True"
| "invoked (Slept d) = False"

fun slept :: "retry_event \<Rightarrow> bool" where
  "slept (Slept d) = True"
| "slept (Invoked n) = False"

fun sleep_event :: "event \<Rightarrow> bool" where
  "sleep_event (Sleep d) = True"
| "sleep_event _ = False"

text \<open>
  The state in which the engine makes attempt \<open>n + j\<close>, when it makes attempt \<open>n\<close> in the
  state \<open>st\<close> and goes on after each attempt before \<open>n + j\<close>: the operation's new state,
  then the sleep.
\<close>

fun attempt_state ::
  "(Stats \<Rightarrow> 's \<Rightarrow> 's op_result) \<Rightarrow> (duration \<Rightarrow> 's \<Rightarrow> 's) \<Rightarrow> Config \<Rightarrow> int \<Rightarrow> 's \<Rightarrow> nat \<Rightarrow> 's" where
  "attempt_state callback sleep config n st 0 = st"
| "attempt_state callback sleep config n st (Suc j) =
     (case callback \<lparr>Attempt = n, StatsConfig = config\<rparr> st of
        OpPanic st' \<Rightarrow> st'
      | OpReturn e brk st' \<Rightarrow>
          attempt_state callback sleep config (n + 1) (sleep (Interval config) st') j)"

text \<open>
  What the engine does over \<open>n\<close> attempts of which the last ends the loop: attempts
  \<open>1\<close> to \<open>n - 1\<close>, each followed by a sleep of \<open>d\<close>, then attempt \<open>n\<close>.
\<close>

definition attempts_log :: "duration \<Rightarrow> int \<Rightarrow> retry_event list" where
  "attempts_log d n = concat (map (\<lambda>i. [Invoked i, Slept d]) [1..n - 1]) @ [Invoked n]"

subsection \<open>Concrete runs\<close>

definition demo_pool :: AgentPool where
  "demo_pool =
     \<lparr>Token = ''tok'', ConfigFilePath = [], poolName = ''a1'', poolPriority = ''1'',
      poolMetaData = [''queue=default''], MetaDataEC2Tags = True, Endpoint = ''https://e'',
      AgentConfiguration =
        \<lparr>BootstrapScript = ''b'', BuildPath = ''p'', HooksPath = ''h'',
         AutoSSHFingerprintVerification = True, CommandEval = True, RunInPty = True,
         ExitWithStatus = False\<rparr>\<rparr>"

text \<open>A service that accepts the first call.\<close>

definition accepting :: "nat \<Rightarrow> Agent \<Rightarrow> Agent option \<times> Response option \<times> error option" where
  "accepting n a = (Some a, Some \<lparr>StatusCode = 200\<rparr>, None)"

text \<open>A service that rejects every call with status 401.\<close>

definition rejecting :: "nat \<Rightarrow> Agent \<Rightarrow> Agent option \<times> Response option \<times> error option" where
  "rejecting n a = (None, Some \<lparr>StatusCode = 401\<rparr>, Some ''unauthorized'')"

text \<open>A service that cannot be reached: an error and no response.\<close>

definition unreachable :: "nat \<Rightarrow> Agent \<Rightarrow> Agent option \<times> Response option \<times> error option" where
  "unreachable n a = (None, None, Some ''dial tcp: connection refused'')"

text \<open>A run that registers, connects, receives two signals and finishes.\<close>

definition demo_env :: Env where
  "demo_env =
     \<lparr>envVersion = ''1.0'', envPID = 42, envHostname = ''host'', envOSDump = ''linux'',
      envColorsEnabled = False, envEC2Tags = Inl ''no metadata service'',
      envRegister = accepting,
      envConnect = None, envSignals = [OtherSignal ''HUP'', QUIT],
      envStart = StartReturns None, envExitStatus = 3\<rparr>"

text \<open>The same run, except that \<open>worker.Start()\<close> returns an error.\<close>

definition start_fails_env :: Env where
  "start_fails_env = demo_env\<lparr>envStart := StartReturns (Some ''boom'')\<rparr>"

text \<open>The same run, except that \<open>worker.Connect()\<close> returns an error.\<close>

definition connect_fails_env :: Env where
  "connect_fails_env = demo_env\<lparr>envConnect := Some ''connection refused''\<rparr>"

text \<open>The same pool, configured to exit with the worker's status.\<close>

definition exit_pool :: AgentPool where
  "exit_pool =
     demo_pool\<lparr>AgentConfiguration := (AgentConfiguration demo_pool)\<lparr>ExitWithStatus := True\<rparr>\<rparr>"

text \<open>A service that is unavailable twice and then rejects with status 401.\<close>

definition flaky_then_rejecting :: "nat \<Rightarrow> Agent \<Rightarrow> Agent option \<times> Response option \<times> error option" where
  "flaky_then_rejecting n a =
     (if n < 2 then (None, Some \<lparr>StatusCode = 503\<rparr>, Some ''unavailable'')
      else (None, Some \<lparr>StatusCode = 401\<rparr>, Some ''unauthorized''))"

definition flaky_env :: Env where
  "flaky_env = demo_env\<lparr>envRegister := flaky_then_rejecting\<rparr>"

definition rejecting_env :: Env where
  "rejecting_env = demo_env\<lparr>envRegister := rejecting\<rparr>"

definition unreachable_env :: Env where
  "unreachable_env = demo_env\<lparr>envRegister := unreachable\<rparr>"

text \<open>The same run, with two tags found.\<close>

definition tags_env :: Env where
  "tags_env = demo_env\<lparr>envEC2Tags := Inr [(''Name'', ''web''), (''env'', ''prod'')]\<rparr>"

text \<open>The template \<open>CreateAgentTemplate\<close> builds from \<open>demo_pool\<close> when no tag is added.\<close>

definition demo_agent :: Agent where
  "demo_agent =
     \<lparr>Name = ''a1'', Priority = ''1'', MetaData = [''queue=default''], ScriptEvalEnabled = True,
      Version = ''1.0'', PID = 42, Hostname = ''host'', OS = ''linux''\<rparr>"

text \<open>
  Two operations for the retry engine. Their state is the number of their own invocations
  and the time slept so far; \<open>nap\<close> is the sleep on that state. One fails every time, the
  other counts its invocations and succeeds at the third, whatever the attempt number says.
\<close>

definition always_failing :: "Stats \<Rightarrow> nat \<times> duration \<Rightarrow> (nat \<times> duration) op_result" where
  "always_failing s st = OpReturn (Some ''down'') False (Suc (fst st), snd st)"

definition third_time_lucky :: "Stats \<Rightarrow> nat \<times> duration \<Rightarrow> (nat \<times> duration) op_result" where
  "third_time_lucky s st =
     (if fst st < 2 then OpReturn (Some ''down'') False (Suc (fst st), snd st)
      else OpReturn None False (Suc (fst st), snd st))"

definition nap :: "duration \<Rightarrow> nat \<times> duration \<Rightarrow> nat \<times> duration" where
  "nap d st = (fst st, snd st + d)"

text \<open>The definitions a concrete run unfolds.\<close>

lemmas run_defs =
  Start_def ShowBanner_def CreateAgentTemplate_def RegisterAgent_def Do_def register_def
  Fatal_def onSignal_def sleep_for_def retry_loop.simps Let_def Second_def
  demo_pool_def exit_pool_def demo_env_def start_fails_env_def connect_fails_env_def
  accepting_def rejecting_def unreachable_def flaky_then_rejecting_def
  flaky_env_def rejecting_env_def unreachable_env_def tags_env_def

section \<open>Facts about the traces\<close>

lemma append_tags_map:
  "append_tags agent tags = agent\<lparr>MetaData := MetaData agent @ map (\<lambda>(tag, val). tag @ ''='' @ val) tags\<rparr>"
  by (induction agent tags rule: append_tags.induct) simp_all

lemma ShowBanner_no_worker: "e \<in> set (ShowBanner r env) \<Longrightarrow> \<not> worker_event e"
  by (auto simp: ShowBanner_def split: if_splits)

lemma CreateAgentTemplate_no_worker: "e \<in> set (snd (CreateAgentTemplate r env)) \<Longrightarrow> \<not> worker_event e"
  by (auto simp: CreateAgentTemplate_def Let_def split: if_splits sum.splits)

lemma register_trace:
  "register env agent s st = OpReturn e b st' \<or> register env agent s st = OpPanic st'
   \<Longrightarrow> \<exists>ex. trace st' = trace st @ ex \<and> (\<forall>x\<in>set ex. \<not> worker_event x)"
  by (auto simp: register_def Let_def split: prod.splits option.splits if_splits)

lemma retry_loop_register_trace:
  "retry_loop (register env agent) sleep_for config n st = (res, st', evs)
   \<Longrightarrow> \<exists>ex. trace st' = trace st @ ex \<and> (\<forall>x\<in>set ex. \<not> worker_event x)"
proof (induction "register env agent" sleep_for config n st arbitrary: res st' evs rule: retry_loop.induct)
  case (1 config n st)
  show ?case
  proof (cases "register env agent \<lparr>Attempt = n, StatsConfig = config\<rparr> st")
    case (OpPanic s1)
    with "1.prems" have "st' = s1" by (simp add: retry_loop.simps[of _ _ _ n st])
    with OpPanic register_trace show ?thesis by blast
  next
    case (OpReturn e b s1)
    from OpReturn register_trace obtain ex1 where
      ex1: "trace s1 = trace st @ ex1" "\<forall>x\<in>set ex1. \<not> worker_event x" by blast
    show ?thesis
    proof (cases "e = None \<or> b \<or> Maximum config \<le> n")
      case True
      with "1.prems" OpReturn have "st' = s1"
        by (auto simp: retry_loop.simps[of _ _ _ n st] split: option.splits if_splits)
      with ex1 show ?thesis by blast
    next
      case False
      then obtain m where e: "e = Some m" and nb: "\<not> b" and lt: "\<not> Maximum config \<le> n" by auto
      obtain r2 s2 ev2 where rec:
        "retry_loop (register env agent) sleep_for config (n + 1) (sleep_for (Interval config) s1) = (r2, s2, ev2)"
        by (metis prod_cases3)
      with "1.prems" OpReturn e nb lt have "st' = s2"
        by (simp add: retry_loop.simps[of _ _ _ n st])
      moreover from "1.hyps"[OF OpReturn e nb lt rec] obtain ex2 where
        "trace s2 = trace (sleep_for (Interval config) s1) @ ex2" "\<forall>x\<in>set ex2. \<not> worker_event x" by blast
      ultimately have "trace st' = trace st @ (ex1 @ Sleep (Interval config) # ex2)"
        "\<forall>x\<in>set (ex1 @ Sleep (Interval config) # ex2). \<not> worker_event x"
        using ex1 by (auto simp: sleep_for_def)
      then show ?thesis by blast
    qed
  qed
qed

lemma RegisterAgent_no_worker: "e \<in> set (snd (RegisterAgent env agent)) \<Longrightarrow> \<not> worker_event e"
proof -
  assume a: "e \<in> set (snd (RegisterAgent env agent))"
  obtain r s ev where d: "Do (register env agent) sleep_for \<lparr>Maximum = 30, Interval = 1 * Second\<rparr>
             \<lparr>registered = None, resp = None, err = None, calls = 0, trace = []\<rparr> = (r, s, ev)"
    by (metis prod_cases3)
  then have "retry_loop (register env agent) sleep_for \<lparr>Maximum = 30, Interval = 1 * Second\<rparr> 1
             \<lparr>registered = None, resp = None, err = None, calls = 0, trace = []\<rparr> = (r, s, ev)"
    by (simp add: Do_def)
  from retry_loop_register_trace[OF this]
  have "\<forall>x\<in>set (trace s). \<not> worker_event x" by simp
  moreover from a d have "e \<in> set (trace s)"
    by (cases r) (simp_all add: RegisterAgent_def)
  ultimately show ?thesis by auto
qed

lemma startup_no_worker: "worker_event e \<Longrightarrow> e \<notin> set (startup r env)"
  using ShowBanner_no_worker CreateAgentTemplate_no_worker RegisterAgent_no_worker
  by (fastforce simp: startup_def)

lemma startup_count: "worker_event e \<Longrightarrow> count_list (startup r env) e = 0"
  by (simp add: startup_no_worker)

lemma signals_events: "e \<in> set (concat (map onSignal sigs)) \<Longrightarrow> log_event e \<or> e = WorkerStop"
  by (auto simp: onSignal_def split: if_splits)

lemma signals_stops: "count_list (concat (map onSignal sigs)) WorkerStop = count_list sigs QUIT"
  by (induction sigs) (simp_all add: onSignal_def)

lemma Start_eq:
  "Start r env =
     (case fst (RegisterAgent env (fst (CreateAgentTemplate r env))) of
        RegisterPanic \<Rightarrow> (Panicked, startup r env)
      | RegisterReturn reg (Some e) \<Rightarrow> (FatalExit, startup r env @ [Log FATAL ''%s'' [AErr e]])
      | RegisterReturn None None \<Rightarrow> (Panicked, startup r env)
      | RegisterReturn (Some agent) None \<Rightarrow>
          (case envConnect env of
             Some e \<Rightarrow> (FatalExit, startup r env @ connecting agent @ [Log FATAL ''%s'' [AErr e]])
           | None \<Rightarrow>
               (case envStart env of
                  StartBlocks \<Rightarrow> (Blocked, startup r env @ connecting agent @ running env)
                | StartReturns (Some e) \<Rightarrow>
                    (FatalExit, startup r env @ connecting agent @ running env @ [Log FATAL ''%s'' [AErr e]])
                | StartReturns None \<Rightarrow>
                    (if ExitWithStatus (AgentConfiguration r) then Exited (envExitStatus env) else Returned None,
                     startup r env @ connecting agent @ running env
                     @ [Log INFO ''Disconnecting %s...'' [AStr (Name agent)], WorkerDisconnect]))))"
  by (simp add: Start_def Let_def Fatal_def startup_def connecting_def running_def
           split: prod.splits register_result.splits option.splits start_result.splits)

lemma Start_cases [case_names register_panic register_fatal connect_fatal blocked start_fatal finished]:
  obtains
    "Start r env = (Panicked, startup r env)"
  | e where "Start r env = (FatalExit, startup r env @ [Log FATAL ''%s'' [AErr e]])"
  | agent e where "envConnect env = Some e"
      "Start r env = (FatalExit, startup r env @ connecting agent @ [Log FATAL ''%s'' [AErr e]])"
  | agent where "envConnect env = None" "envStart env = StartBlocks"
      "Start r env = (Blocked, startup r env @ connecting agent @ running env)"
  | agent e where "envConnect env = None" "envStart env = StartReturns (Some e)"
      "Start r env = (FatalExit, startup r env @ connecting agent @ running env @ [Log FATAL ''%s'' [AErr e]])"
  | agent where "envConnect env = None" "envStart env = StartReturns None"
      "Start r env = (if ExitWithStatus (AgentConfiguration r) then Exited (envExitStatus env) else Returned None,
          startup r env @ connecting agent @ running env
          @ [Log INFO ''Disconnecting %s...'' [AStr (Name agent)], WorkerDisconnect])"
proof (cases "fst (RegisterAgent env (fst (CreateAgentTemplate r env)))")
  case RegisterPanic
  then show ?thesis using that(1) by (simp add: Start_eq)
next
  case (RegisterReturn reg er)
  show ?thesis
  proof (cases er)
    case (Some e)
    with RegisterReturn show ?thesis using that(2)[of e] by (cases reg) (simp_all add: Start_eq)
  next
    case None
    note noerr = this
    show ?thesis
    proof (cases reg)
      case None
      with RegisterReturn noerr show ?thesis using that(1) by (simp add: Start_eq)
    next
      case (Some agent)
      note ag = this
      show ?thesis
      proof (cases "envConnect env")
        case (Some e)
        with RegisterReturn noerr ag show ?thesis using that(3)[of e agent] by (simp add: Start_eq)
      next
        case None
        note conn = this
        show ?thesis
        proof (cases "envStart env")
          case StartBlocks
          with RegisterReturn noerr ag conn show ?thesis using that(4)[of agent] by (simp add: Start_eq)
        next
          case (StartReturns res)
          show ?thesis
          proof (cases res)
            case None
            with StartReturns RegisterReturn noerr ag conn show ?thesis
              using that(6)[of agent] by (simp add: Start_eq)
          next
            case (Some e)
            with StartReturns RegisterReturn noerr ag conn show ?thesis
              using that(5)[of e agent] by (simp add: Start_eq)
          qed
        qed
      qed
    qed
  qed
qed

lemma connecting_events [simp]:
  "WorkerConnect \<in> set (connecting agent)" "SignalWatch \<notin> set (connecting agent)"
  "WorkerStart \<notin> set (connecting agent)" "WorkerStop \<notin> set (connecting agent)"
  "WorkerDisconnect \<notin> set (connecting agent)"
  by (simp_all add: connecting_def)

lemma running_events [simp]:
  "WorkerStart \<in> set (running env)" "WorkerDisconnect \<notin> set (running env)"
  "count_list (running env) WorkerStop = count_list (envSignals env) QUIT"
  using signals_events[of WorkerDisconnect "envSignals env"]
  by (auto simp: running_def signals_stops)

lemma register_first:
  "register env agent s st = OpReturn e b st' \<or> register env agent s st = OpPanic st'
   \<Longrightarrow> \<exists>ex. trace st' = trace st @ Register agent # ex"
  by (auto simp: register_def Let_def split: prod.splits option.splits if_splits)

lemma retry_loop_register_first:
  assumes "retry_loop (register env agent) sleep_for config n st = (res, st', evs)"
  shows "\<exists>ex. trace st' = trace st @ Register agent # ex"
proof (cases "register env agent \<lparr>Attempt = n, StatsConfig = config\<rparr> st")
  case (OpPanic s1)
  with assms have "st' = s1" by (simp add: retry_loop.simps[of _ _ _ n st])
  with OpPanic register_first show ?thesis by blast
next
  case (OpReturn e b s1)
  from OpReturn register_first obtain ex1 where ex1: "trace s1 = trace st @ Register agent # ex1" by blast
  show ?thesis
  proof (cases "e = None \<or> b \<or> Maximum config \<le> n")
    case True
    with assms OpReturn have "st' = s1"
      by (auto simp: retry_loop.simps[of _ _ _ n st] split: option.splits if_splits)
    with ex1 show ?thesis by blast
  next
    case False
    then obtain m where e: "e = Some m" and nb: "\<not> b" and lt: "\<not> Maximum config \<le> n" by auto
    obtain r2 s2 ev2 where rec:
      "retry_loop (register env agent) sleep_for config (n + 1) (sleep_for (Interval config) s1) = (r2, s2, ev2)"
      by (metis prod_cases3)
    with assms OpReturn e nb lt have "st' = s2"
      by (simp add: retry_loop.simps[of _ _ _ n st])
    moreover from retry_loop_register_trace[OF rec] obtain ex2 where
      "trace s2 = trace (sleep_for (Interval config) s1) @ ex2" by blast
    ultimately have "trace st' = trace st @ Register agent # (ex1 @ Sleep (Interval config) # ex2)"
      using ex1 by (simp add: sleep_for_def)
    then show ?thesis by blast
  qed
qed

lemma RegisterAgent_first: "\<exists>rest. snd (RegisterAgent env agent) = Register agent # rest"
proof -
  obtain r s ev where d: "retry_loop (register env agent) sleep_for \<lparr>Maximum = 30, Interval = 1 * Second\<rparr> 1
             \<lparr>registered = None, resp = None, err = None, calls = 0, trace = []\<rparr> = (r, s, ev)"
    by (metis prod_cases3)
  from retry_loop_register_first[OF d] obtain ex where "trace s = Register agent # ex" by auto
  with d show ?thesis by (cases r) (simp_all add: RegisterAgent_def Do_def)
qed

lemma Start_startup: "\<exists>w. snd (Start r env) = startup r env @ w"
  by (cases r env rule: Start_cases) auto

lemma retry_loop_run:
  assumes "\<forall>j<m. \<exists>e st'. callback \<lparr>Attempt = n + int j, StatsConfig = config\<rparr>
                          (attempt_state callback sleep config n st j) = OpReturn (Some e) False st'"
    and "n + int m \<le> Maximum config"
  shows "retry_loop callback sleep config n st =
           (case retry_loop callback sleep config (n + int m) (attempt_state callback sleep config n st m) of
              (r, s, evs) \<Rightarrow>
                (r, s, concat (map (\<lambda>i. [Invoked i, Slept (Interval config)]) [n..n + int m - 1]) @ evs))"
  using assms
proof (induction m arbitrary: n st)
  case 0
  show ?case by (simp split: prod.splits)
next
  case (Suc m)
  from Suc.prems(1) have "\<exists>e st'. callback \<lparr>Attempt = n + int 0, StatsConfig = config\<rparr>
                          (attempt_state callback sleep config n st 0) = OpReturn (Some e) False st'"
    by blast
  then obtain e st1 where
    cb: "callback \<lparr>Attempt = n, StatsConfig = config\<rparr> st = OpReturn (Some e) False st1" by auto
  from Suc.prems(2) have more: "\<not> Maximum config \<le> n" by simp
  have step: "retry_loop callback sleep config n st =
      (case retry_loop callback sleep config (n + 1) (sleep (Interval config) st1) of
         (r, s, evs) \<Rightarrow> (r, s, Invoked n # Slept (Interval config) # evs))"
    using cb more by (simp add: retry_loop.simps[of _ _ _ n st])
  have shift: "attempt_state callback sleep config n st (Suc j)
             = attempt_state callback sleep config (n + 1) (sleep (Interval config) st1) j" for j
    using cb by simp
  have "\<forall>j<m. \<exists>e st'. callback \<lparr>Attempt = n + 1 + int j, StatsConfig = config\<rparr>
                  (attempt_state callback sleep config (n + 1) (sleep (Interval config) st1) j)
                = OpReturn (Some e) False st'"
  proof (intro allI impI)
    fix j assume "j < m"
    then have "Suc j < Suc m" by simp
    with Suc.prems(1) have "\<exists>e st'. callback \<lparr>Attempt = n + int (Suc j), StatsConfig = config\<rparr>
                  (attempt_state callback sleep config n st (Suc j)) = OpReturn (Some e) False st'"
      by blast
    moreover have "n + int (Suc j) = n + 1 + int j" by simp
    ultimately show "\<exists>e st'. callback \<lparr>Attempt = n + 1 + int j, StatsConfig = config\<rparr>
                  (attempt_state callback sleep config (n + 1) (sleep (Interval config) st1) j)
                = OpReturn (Some e) False st'"
      unfolding shift by (simp only:)
  qed
  moreover have "n + 1 + int m \<le> Maximum config" using Suc.prems(2) by simp
  ultimately have rec:
    "retry_loop callback sleep config (n + 1) (sleep (Interval config) st1) =
       (case retry_loop callback sleep config (n + 1 + int m)
               (attempt_state callback sleep config (n + 1) (sleep (Interval config) st1) m) of
          (r, s, evs) \<Rightarrow>
            (r, s, concat (map (\<lambda>i. [Invoked i, Slept (Interval config)]) [n + 1..n + 1 + int m - 1]) @ evs))"
    by (rule Suc.IH)
  have up: "[n..n + int m] = n # [n + 1..n + int m]"
    by (simp add: upto_rec1[of n])
  have eq: "n + int (Suc m) = n + 1 + int m" by simp
  show ?case
    unfolding step rec shift eq by (simp split: prod.splits add: up)
qed

lemma filter_invoked_pairs:
  "filter invoked (concat (map (\<lambda>i. [Invoked i, Slept d]) xs)) = map Invoked xs"
  by (induction xs) simp_all

lemma filter_slept_pairs:
  "filter slept (concat (map (\<lambda>i. [Invoked i, Slept d]) xs)) = replicate (length xs) (Slept d)"
  by (induction xs) simp_all

lemma attempts_log_counts:
  assumes "1 \<le> n"
  shows "length (filter invoked (attempts_log d n)) = nat n"
    and "filter slept (attempts_log d n) = replicate (nat (n - 1)) (Slept d)"
  using assms by (simp_all add: attempts_log_def filter_invoked_pairs filter_slept_pairs)

lemma retry_loop_rejected_after:
  assumes "\<forall>i<k. \<exists>a rsp e. envRegister env (calls st + i) agent = (a, Some rsp, Some e) \<and> StatusCode rsp \<noteq> 401"
    and "envRegister env (calls st + k) agent = (a, Some rsp, Some e)" and "StatusCode rsp = 401"
    and "n + int k \<le> Maximum config"
  shows "\<exists>pre st' evs.
           retry_loop (register env agent) sleep_for config n st = (RetryDone (Some e), st', evs)
         \<and> registered st' = a
         \<and> trace st' = trace st @ pre
                       @ [Register agent, Log WARN ''Buildkite rejected the registration (%s)'' [AErr e]]
         \<and> count_list pre (Register agent) = k \<and> length (filter sleep_event pre) = k"
  using assms
proof (induction k arbitrary: n st)
  case 0
  then have "register env agent \<lparr>Attempt = n, StatsConfig = config\<rparr> st =
      OpReturn (Some e) True
        (st\<lparr>registered := a, resp := Some rsp, err := Some e, calls := calls st + 1,
            trace := trace st @ [Register agent,
                                 Log WARN ''Buildkite rejected the registration (%s)'' [AErr e]]\<rparr>)"
    by (simp add: register_def)
  then have "retry_loop (register env agent) sleep_for config n st =
      (RetryDone (Some e),
       st\<lparr>registered := a, resp := Some rsp, err := Some e, calls := calls st + 1,
           trace := trace st @ [Register agent,
                                Log WARN ''Buildkite rejected the registration (%s)'' [AErr e]]\<rparr>,
       [Invoked n])"
    by (simp add: retry_loop.simps[of _ _ _ n st])
  then show ?case by (intro exI[of _ "[]"]) simp
next
  case (Suc k)
  from Suc.prems(1) obtain a0 rsp0 e0 where
    first: "envRegister env (calls st) agent = (a0, Some rsp0, Some e0)" "StatusCode rsp0 \<noteq> 401"
    by force
  define st1 where "st1 = st\<lparr>registered := a0, resp := Some rsp0, err := Some e0, calls := calls st + 1,
            trace := trace st @ [Register agent, Log WARN ''%s (%s)'' [AErr e0, AStats n]]\<rparr>"
  from first have cb: "register env agent \<lparr>Attempt = n, StatsConfig = config\<rparr> st = OpReturn (Some e0) False st1"
    by (simp add: register_def st1_def)
  from Suc.prems(4) have more: "\<not> Maximum config \<le> n" by simp
  have step: "retry_loop (register env agent) sleep_for config n st =
      (case retry_loop (register env agent) sleep_for config (n + 1) (sleep_for (Interval config) st1) of
         (r, s, evs) \<Rightarrow> (r, s, Invoked n # Slept (Interval config) # evs))"
    using cb more by (simp add: retry_loop.simps[of _ _ _ n st])
  have c1: "calls (sleep_for (Interval config) st1) = calls st + 1"
    and t1: "trace (sleep_for (Interval config) st1) =
               trace st @ [Register agent, Log WARN ''%s (%s)'' [AErr e0, AStats n], Sleep (Interval config)]"
    by (simp_all add: sleep_for_def st1_def)
  have "\<forall>i<k. \<exists>a rsp e. envRegister env (calls (sleep_for (Interval config) st1) + i) agent
                  = (a, Some rsp, Some e) \<and> StatusCode rsp \<noteq> 401"
  proof (intro allI impI)
    fix i assume "i < k"
    then have "Suc i < Suc k" by simp
    with Suc.prems(1) have "\<exists>a rsp e. envRegister env (calls st + Suc i) agent
                  = (a, Some rsp, Some e) \<and> StatusCode rsp \<noteq> 401" by blast
    then show "\<exists>a rsp e. envRegister env (calls (sleep_for (Interval config) st1) + i) agent
                  = (a, Some rsp, Some e) \<and> StatusCode rsp \<noteq> 401"
      by (simp add: c1)
  qed
  moreover have "envRegister env (calls (sleep_for (Interval config) st1) + k) agent = (a, Some rsp, Some e)"
    using Suc.prems(2) by (simp add: c1)
  moreover have "n + 1 + int k \<le> Maximum config" using Suc.prems(4) by simp
  ultimately obtain pre st' evs where rec:
    "retry_loop (register env agent) sleep_for config (n + 1) (sleep_for (Interval config) st1)
       = (RetryDone (Some e), st', evs)"
    "registered st' = a"
    "trace st' = trace (sleep_for (Interval config) st1) @ pre
                 @ [Register agent, Log WARN ''Buildkite rejected the registration (%s)'' [AErr e]]"
    "count_list pre (Register agent) = k" "length (filter sleep_event pre) = k"
    using Suc.IH[of "sleep_for (Interval config) st1" "n + 1"] Suc.prems(3) by blast
  let ?pre = "[Register agent, Log WARN ''%s (%s)'' [AErr e0, AStats n], Sleep (Interval config)] @ pre"
  have "retry_loop (register env agent) sleep_for config n st
          = (RetryDone (Some e), st', Invoked n # Slept (Interval config) # evs)"
    unfolding step rec(1) by simp
  moreover have "trace st' = trace st @ ?pre
                 @ [Register agent, Log WARN ''Buildkite rejected the registration (%s)'' [AErr e]]"
    using rec(3) t1 by simp
  moreover have "count_list ?pre (Register agent) = Suc k" "length (filter sleep_event ?pre) = Suc k"
    using rec(4,5) by simp_all
  ultimately show ?case using rec(2) by blast
qed

section \<open>The orchestrator's claims\<close>

text \<open>
  C1 (as amended). In every run that reaches \<open>worker.Start()\<close> and in which that call
  returns: when it returns nil (on its own or after a \<open>Stop\<close>), \<open>Disconnect\<close> is invoked
  exactly once, as the last thing before the outcome is reported; when it returns an error,
  \<open>logger.Fatal\<close> ends the process there and \<open>Disconnect\<close> is not invoked.
\<close>

theorem Start_disconnect_after_clean_run:
  assumes "WorkerStart \<in> set (snd (Start r env))" and "envStart env = StartReturns res"
  shows "count_list (snd (Start r env)) WorkerDisconnect = (if res = None then 1 else 0)
       \<and> (res = None \<longrightarrow> last (snd (Start r env)) = WorkerDisconnect)
       \<and> (res \<noteq> None \<longrightarrow> fst (Start r env) = FatalExit)"
  using assms
  by (cases r env rule: Start_cases) (auto simp: startup_no_worker startup_count)

theorem Start_disconnect_after_clean_run_witness:
  "WorkerStart \<in> set (snd (Start demo_pool demo_env))
   \<and> envStart demo_env = StartReturns None
   \<and> count_list (snd (Start demo_pool demo_env)) WorkerDisconnect = 1
   \<and> last (snd (Start demo_pool demo_env)) = WorkerDisconnect
   \<and> WorkerStart \<in> set (snd (Start exit_pool start_fails_env))
   \<and> envStart start_fails_env = StartReturns (Some ''boom'')
   \<and> count_list (snd (Start exit_pool start_fails_env)) WorkerDisconnect = 0
   \<and> fst (Start exit_pool start_fails_env) = FatalExit"
proof -
  have h1: "WorkerStart \<in> set (snd (Start demo_pool demo_env))"
    by (simp add: run_defs)
  have h2: "envStart demo_env = StartReturns None"
    by (simp add: demo_env_def)
  have g1: "WorkerStart \<in> set (snd (Start exit_pool start_fails_env))"
    by (simp add: run_defs)
  have g2: "envStart start_fails_env = StartReturns (Some ''boom'')"
    by (simp add: start_fails_env_def demo_env_def)
  from Start_disconnect_after_clean_run [OF h1 h2] Start_disconnect_after_clean_run [OF g1 g2]
  show ?thesis
    using h1 h2 g1 g2 by simp
qed

text \<open>
  The claim as first stated fails: \<open>worker.Start()\<close> is reached and returns an error, and
  the run ends in \<open>logger.Fatal\<close> with no \<open>Disconnect\<close> at all.
\<close>

theorem Start_error_skips_disconnect:
  "WorkerStart \<in> set (snd (Start demo_pool start_fails_env))
   \<and> envStart start_fails_env = StartReturns (Some ''boom'')
   \<and> count_list (snd (Start demo_pool start_fails_env)) WorkerDisconnect = 0
   \<and> fst (Start demo_pool start_fails_env) = FatalExit"
  by (simp add: run_defs)

text \<open>
  C3. The callback makes exactly one \<open>Stop\<close> call for a \<open>QUIT\<close> signal and none for any
  other signal: for such a signal it writes the one debug line \<open>Ignoring signal\<close> and does
  nothing else. So a run that reaches \<open>worker.Start()\<close> makes as many
  \<open>Stop\<close> calls as \<open>QUIT\<close> signals were delivered.
\<close>

theorem onSignal_stop:
  "count_list (onSignal sig) WorkerStop = (if sig = QUIT then 1 else 0)
   \<and> (sig \<noteq> QUIT \<longrightarrow> onSignal sig = [Log DEBUG ''Ignoring signal `%s`'' [AStr (String sig)]])
   \<and> (sig \<noteq> QUIT \<longrightarrow> (\<forall>e\<in>set (onSignal sig). log_event e))
   \<and> (WorkerStart \<in> set (snd (Start r env))
        \<longrightarrow> count_list (snd (Start r env)) WorkerStop = count_list (envSignals env) QUIT)"
proof -
  have "WorkerStart \<in> set (snd (Start r env))
        \<Longrightarrow> count_list (snd (Start r env)) WorkerStop = count_list (envSignals env) QUIT"
    by (cases r env rule: Start_cases) (auto simp: startup_no_worker startup_count connecting_def)
  then show ?thesis by (simp add: onSignal_def)
qed

theorem onSignal_stop_witness:
  "OtherSignal ''HUP'' \<noteq> QUIT
   \<and> WorkerStart \<in> set (snd (Start demo_pool demo_env))
   \<and> onSignal (OtherSignal ''HUP'') = [Log DEBUG ''Ignoring signal `%s`'' [AStr ''HUP'']]
   \<and> count_list (onSignal (OtherSignal ''HUP'')) WorkerStop = 0
   \<and> count_list (onSignal QUIT) WorkerStop = 1
   \<and> count_list (snd (Start demo_pool demo_env)) WorkerStop = 1"
proof -
  have h1: "WorkerStart \<in> set (snd (Start demo_pool demo_env))"
    by (simp add: run_defs)
  have h2: "count_list (envSignals demo_env) QUIT = 1"
    by (simp add: demo_env_def)
  from onSignal_stop [of "OtherSignal ''HUP''" demo_pool demo_env] onSignal_stop [of QUIT demo_pool demo_env]
  show ?thesis using h1 h2 by simp
qed

text \<open>
  C4. In a run in which \<open>worker.Connect()\<close> is invoked and returns an error, the process
  ends in \<open>logger.Fatal\<close>; \<open>Start\<close>, \<open>Stop\<close> and \<open>Disconnect\<close> are never invoked and the
  signal watcher is never armed.
\<close>

theorem Start_connect_error:
  assumes "WorkerConnect \<in> set (snd (Start r env))" and "envConnect env = Some e"
  shows "fst (Start r env) = FatalExit
       \<and> WorkerStart \<notin> set (snd (Start r env)) \<and> WorkerStop \<notin> set (snd (Start r env))
       \<and> WorkerDisconnect \<notin> set (snd (Start r env)) \<and> SignalWatch \<notin> set (snd (Start r env))"
  using assms
  by (cases r env rule: Start_cases) (auto simp: startup_no_worker)

theorem Start_connect_error_witness:
  "WorkerConnect \<in> set (snd (Start demo_pool connect_fails_env))
   \<and> envConnect connect_fails_env = Some ''connection refused''
   \<and> fst (Start demo_pool connect_fails_env) = FatalExit
   \<and> WorkerStart \<notin> set (snd (Start demo_pool connect_fails_env))
   \<and> WorkerStop \<notin> set (snd (Start demo_pool connect_fails_env))
   \<and> WorkerDisconnect \<notin> set (snd (Start demo_pool connect_fails_env))
   \<and> SignalWatch \<notin> set (snd (Start demo_pool connect_fails_env))"
proof -
  have h1: "WorkerConnect \<in> set (snd (Start demo_pool connect_fails_env))"
    by (simp add: run_defs)
  have h2: "envConnect connect_fails_env = Some ''connection refused''"
    by (simp add: connect_fails_env_def demo_env_def)
  from Start_connect_error [OF h1 h2] show ?thesis
    using h1 h2 by simp
qed

text \<open>
  C5. Once \<open>Disconnect\<close> has run, the process exits with the worker's recorded exit status
  when \<open>ExitWithStatus\<close> is set, and \<open>AgentPool.Start\<close> returns nil otherwise.
\<close>

theorem Start_exit_status:
  assumes "WorkerDisconnect \<in> set (snd (Start r env))"
  shows "fst (Start r env) =
           (if ExitWithStatus (AgentConfiguration r) then Exited (envExitStatus env) else Returned None)"
  using assms
  by (cases r env rule: Start_cases) (auto simp: startup_no_worker)

theorem Start_exit_status_witness:
  "WorkerDisconnect \<in> set (snd (Start exit_pool demo_env))
   \<and> WorkerDisconnect \<in> set (snd (Start demo_pool demo_env))
   \<and> fst (Start exit_pool demo_env) = Exited 3
   \<and> fst (Start demo_pool demo_env) = Returned None"
proof -
  have h1: "WorkerDisconnect \<in> set (snd (Start exit_pool demo_env))"
    by (simp add: run_defs)
  have h2: "WorkerDisconnect \<in> set (snd (Start demo_pool demo_env))"
    by (simp add: run_defs)
  have c: "ExitWithStatus (AgentConfiguration exit_pool)" "\<not> ExitWithStatus (AgentConfiguration demo_pool)"
    "envExitStatus demo_env = 3"
    by (simp_all add: exit_pool_def demo_pool_def demo_env_def)
  from Start_exit_status [OF h1] Start_exit_status [OF h2] show ?thesis
    using h1 h2 c by simp
qed



section \<open>The claims about the template and the registration\<close>

text \<open>
  C7. With the tag enrichment enabled and the tag lookup failing, \<open>CreateAgentTemplate\<close>
  logs the failure and still returns the template, the one it returns with the enrichment
  disabled, with the configured meta-data only; and the run goes on to call the service's
  \<open>Register\<close> with that template.
\<close>

theorem CreateAgentTemplate_tags_failure:
  assumes "MetaDataEC2Tags r" and "envEC2Tags env = Inl e"
  shows "CreateAgentTemplate r env =
           (fst (CreateAgentTemplate (r\<lparr>MetaDataEC2Tags := False\<rparr>) env),
            [EC2TagsGet, Log ERROR (''Failed to find EC2 Tags: '' @ e) []])
       \<and> MetaData (fst (CreateAgentTemplate r env)) = poolMetaData r
       \<and> (\<exists>rest. snd (Start r env) =
             ShowBanner r env
             @ [EC2TagsGet, Log ERROR (''Failed to find EC2 Tags: '' @ e) [],
                Log INFO ''Registering agent with Buildkite...'' [],
                Register (fst (CreateAgentTemplate r env))]
             @ rest)"
proof -
  have c: "CreateAgentTemplate r env =
           (fst (CreateAgentTemplate (r\<lparr>MetaDataEC2Tags := False\<rparr>) env),
            [EC2TagsGet, Log ERROR (''Failed to find EC2 Tags: '' @ e) []])"
    using assms by (simp add: CreateAgentTemplate_def Let_def)
  have m: "MetaData (fst (CreateAgentTemplate r env)) = poolMetaData r"
    using assms by (simp add: CreateAgentTemplate_def Let_def)
  obtain w where w: "snd (Start r env) = startup r env @ w"
    using Start_startup by blast
  obtain rest where rest: "snd (RegisterAgent env (fst (CreateAgentTemplate r env)))
      = Register (fst (CreateAgentTemplate r env)) # rest"
    using RegisterAgent_first by blast
  have "snd (Start r env) =
             ShowBanner r env
             @ [EC2TagsGet, Log ERROR (''Failed to find EC2 Tags: '' @ e) [],
                Log INFO ''Registering agent with Buildkite...'' [],
                Register (fst (CreateAgentTemplate r env))]
             @ (rest @ w)"
    unfolding w startup_def rest using c by simp
  with c m show ?thesis by blast
qed

theorem CreateAgentTemplate_tags_failure_witness:
  "MetaDataEC2Tags demo_pool \<and> envEC2Tags demo_env = Inl ''no metadata service''
   \<and> CreateAgentTemplate demo_pool demo_env =
       (\<lparr>Name = ''a1'', Priority = ''1'', MetaData = [''queue=default''], ScriptEvalEnabled = True,
         Version = ''1.0'', PID = 42, Hostname = ''host'', OS = ''linux''\<rparr>,
        [EC2TagsGet, Log ERROR ''Failed to find EC2 Tags: no metadata service'' []])
   \<and> fst (Start demo_pool demo_env) = Returned None"
proof -
  have h1: "MetaDataEC2Tags demo_pool" by (simp add: demo_pool_def)
  have h2: "envEC2Tags demo_env = Inl ''no metadata service''" by (simp add: demo_env_def)
  have v: "fst (CreateAgentTemplate (demo_pool\<lparr>MetaDataEC2Tags := False\<rparr>) demo_env) =
       \<lparr>Name = ''a1'', Priority = ''1'', MetaData = [''queue=default''], ScriptEvalEnabled = True,
         Version = ''1.0'', PID = 42, Hostname = ''host'', OS = ''linux''\<rparr>"
    by (simp add: run_defs)
  have o: "fst (Start demo_pool demo_env) = Returned None" by (simp add: run_defs)
  from CreateAgentTemplate_tags_failure [OF h1 h2] show ?thesis
    using h1 h2 v o by simp
qed

text \<open>
  C10. The enrichment only appends strings \<open>tag=value\<close> to the template's meta-data, after
  the configured entries, which stay as they are and in their order; \<open>Name\<close>, \<open>Priority\<close>,
  \<open>ScriptEvalEnabled\<close>, \<open>Version\<close> and \<open>PID\<close> do not depend on it.
\<close>

theorem CreateAgentTemplate_enrichment:
  "MetaData (fst (CreateAgentTemplate r env)) =
     poolMetaData r @ (if MetaDataEC2Tags r
                       then (case envEC2Tags env of
                               Inl e \<Rightarrow> []
                             | Inr tags \<Rightarrow> map (\<lambda>(tag, val). tag @ ''='' @ val) tags)
                       else [])
   \<and> Name (fst (CreateAgentTemplate r env)) = poolName r
   \<and> Priority (fst (CreateAgentTemplate r env)) = poolPriority r
   \<and> ScriptEvalEnabled (fst (CreateAgentTemplate r env)) = CommandEval (AgentConfiguration r)
   \<and> Version (fst (CreateAgentTemplate r env)) = envVersion env
   \<and> PID (fst (CreateAgentTemplate r env)) = envPID env"
  by (simp add: CreateAgentTemplate_def Let_def append_tags_map split: sum.splits)

theorem CreateAgentTemplate_enrichment_witness:
  "MetaData (fst (CreateAgentTemplate demo_pool tags_env)) = [''queue=default'', ''Name=web'', ''env=prod'']
   \<and> Name (fst (CreateAgentTemplate demo_pool tags_env)) = ''a1''
   \<and> PID (fst (CreateAgentTemplate demo_pool tags_env)) = 42"
proof -
  have c: "MetaDataEC2Tags demo_pool" "envEC2Tags tags_env = Inr [(''Name'', ''web''), (''env'', ''prod'')]"
    "poolMetaData demo_pool = [''queue=default'']" "poolName demo_pool = ''a1''" "envPID tags_env = 42"
    by (simp_all add: demo_pool_def tags_env_def demo_env_def)
  from CreateAgentTemplate_enrichment [of demo_pool tags_env] show ?thesis
    using c by simp
qed

text \<open>
  C8. The closure \<open>register\<close> panics on a nil dereference exactly when the call to the
  service returns an error together with a nil response: after an error it reads
  \<open>resp.StatusCode\<close> whatever \<open>resp\<close> is.
\<close>

theorem register_nil_response:
  "(\<exists>st'. register env agent s st = OpPanic st')
   = (\<exists>a m. envRegister env (calls st) agent = (a, None, Some m))"
  by (auto simp: register_def Let_def split: prod.splits option.splits if_splits)

theorem register_nil_response_witness:
  "envRegister unreachable_env 0 (fst (CreateAgentTemplate demo_pool demo_env))
     = (None, None, Some ''dial tcp: connection refused'')
   \<and> (\<exists>st'. register unreachable_env (fst (CreateAgentTemplate demo_pool demo_env))
              \<lparr>Attempt = 1, StatsConfig = \<lparr>Maximum = 30, Interval = 1 * Second\<rparr>\<rparr>
              \<lparr>registered = None, resp = None, err = None, calls = 0, trace = []\<rparr> = OpPanic st')
   \<and> fst (RegisterAgent unreachable_env (fst (CreateAgentTemplate demo_pool demo_env))) = RegisterPanic"
proof -
  have h: "envRegister unreachable_env 0 (fst (CreateAgentTemplate demo_pool demo_env))
             = (None, None, Some ''dial tcp: connection refused'')"
    by (simp add: unreachable_env_def unreachable_def)
  have p: "fst (RegisterAgent unreachable_env (fst (CreateAgentTemplate demo_pool demo_env))) = RegisterPanic"
    by (simp add: unreachable_env_def run_defs)
  from register_nil_response [of unreachable_env "fst (CreateAgentTemplate demo_pool demo_env)"
        "\<lparr>Attempt = 1, StatsConfig = \<lparr>Maximum = 30, Interval = 1 * Second\<rparr>\<rparr>"
        "\<lparr>registered = None, resp = None, err = None, calls = 0, trace = []\<rparr>"]
  show ?thesis using h p by simp
qed

text \<open>
  C2. When the call number \<open>k + 1\<close> of \<open>RegisterAgent\<close> is rejected with status 401 (the
  \<open>k\<close> calls before it having failed otherwise), the loop ends there: one warning is
  logged for that attempt, nothing follows it, and \<open>RegisterAgent\<close> returns that attempt's
  error; the service was called \<open>k + 1\<close> times, with \<open>k\<close> sleeps. A service that rejects
  every call with 401 is the case \<open>k = 0\<close>: it is called once.
\<close>

theorem RegisterAgent_rejected:
  assumes "k < 30"
    and "\<forall>i<k. \<exists>a rsp e. envRegister env i agent = (a, Some rsp, Some e) \<and> StatusCode rsp \<noteq> 401"
    and "envRegister env k agent = (a, Some rsp, Some e)" and "StatusCode rsp = 401"
  shows "\<exists>pre. RegisterAgent env agent =
                 (RegisterReturn a (Some e),
                  pre @ [Register agent, Log WARN ''Buildkite rejected the registration (%s)'' [AErr e]])
             \<and> count_list pre (Register agent) = k \<and> length (filter sleep_event pre) = k"
proof -
  let ?st = "\<lparr>registered = None, resp = None, err = None, calls = 0, trace = []\<rparr>"
  let ?config = "\<lparr>Maximum = 30, Interval = 1 * Second\<rparr>"
  have "\<forall>i<k. \<exists>a rsp e. envRegister env (calls ?st + i) agent = (a, Some rsp, Some e) \<and> StatusCode rsp \<noteq> 401"
    using assms(2) by simp
  moreover have "envRegister env (calls ?st + k) agent = (a, Some rsp, Some e)"
    using assms(3) by simp
  moreover have "1 + int k \<le> Maximum ?config" using assms(1) by simp
  ultimately obtain pre st' evs where
    "retry_loop (register env agent) sleep_for ?config 1 ?st = (RetryDone (Some e), st', evs)"
    "registered st' = a"
    "trace st' = trace ?st @ pre
                 @ [Register agent, Log WARN ''Buildkite rejected the registration (%s)'' [AErr e]]"
    "count_list pre (Register agent) = k" "length (filter sleep_event pre) = k"
    using retry_loop_rejected_after[of k env ?st agent a rsp e 1 ?config] assms(4) by blast
  then show ?thesis by (auto simp: RegisterAgent_def Do_def)
qed

theorem RegisterAgent_rejected_witness:
  "(2::nat) < 30
   \<and> envRegister flaky_env 2 demo_agent = (None, Some \<lparr>StatusCode = 401\<rparr>, Some ''unauthorized'')
   \<and> RegisterAgent flaky_env demo_agent =
       (RegisterReturn None (Some ''unauthorized''),
        [Register demo_agent, Log WARN ''%s (%s)'' [AErr ''unavailable'', AStats 1], Sleep 1000000000,
         Register demo_agent, Log WARN ''%s (%s)'' [AErr ''unavailable'', AStats 2], Sleep 1000000000,
         Register demo_agent, Log WARN ''Buildkite rejected the registration (%s)'' [AErr ''unauthorized'']])
   \<and> RegisterAgent rejecting_env demo_agent =
       (RegisterReturn None (Some ''unauthorized''),
        [Register demo_agent, Log WARN ''Buildkite rejected the registration (%s)'' [AErr ''unauthorized'']])"
proof -
  have h1: "(2::nat) < 30" "(0::nat) < 30" by simp_all
  have h2: "\<forall>i<2. \<exists>a rsp e. envRegister flaky_env i demo_agent = (a, Some rsp, Some e) \<and> StatusCode rsp \<noteq> 401"
    by (simp add: flaky_env_def flaky_then_rejecting_def)
  have h3: "envRegister flaky_env 2 demo_agent = (None, Some \<lparr>StatusCode = 401\<rparr>, Some ''unauthorized'')"
    by (simp add: flaky_env_def flaky_then_rejecting_def)
  have h4: "StatusCode \<lparr>StatusCode = 401\<rparr> = 401" by simp
  have g2: "\<forall>i<0. \<exists>a rsp e. envRegister rejecting_env i demo_agent = (a, Some rsp, Some e) \<and> StatusCode rsp \<noteq> 401"
    by simp
  have g3: "envRegister rejecting_env 0 demo_agent = (None, Some \<lparr>StatusCode = 401\<rparr>, Some ''unauthorized'')"
    by (simp add: rejecting_env_def rejecting_def)
  have e1: "RegisterAgent flaky_env demo_agent =
       (RegisterReturn None (Some ''unauthorized''),
        [Register demo_agent, Log WARN ''%s (%s)'' [AErr ''unavailable'', AStats 1], Sleep 1000000000,
         Register demo_agent, Log WARN ''%s (%s)'' [AErr ''unavailable'', AStats 2], Sleep 1000000000,
         Register demo_agent, Log WARN ''Buildkite rejected the registration (%s)'' [AErr ''unauthorized'']])"
    by (simp add: flaky_env_def flaky_then_rejecting_def run_defs)
  have e2: "RegisterAgent rejecting_env demo_agent =
       (RegisterReturn None (Some ''unauthorized''),
        [Register demo_agent, Log WARN ''Buildkite rejected the registration (%s)'' [AErr ''unauthorized'']])"
    by (simp add: rejecting_env_def run_defs)
  from RegisterAgent_rejected [OF h1(1) h2 h3 h4] RegisterAgent_rejected [OF h1(2) g2 g3 h4]
  show ?thesis using h1 h3 e1 e2 by simp
qed

section \<open>The claim about the retry engine\<close>

text \<open>
  C6. For a configuration of \<open>N\<close> attempts, \<open>N\<close> at least 1, at interval \<open>d\<close>: an operation
  that fails at every attempt of the run and never asks to abort is invoked \<open>N\<close> times with
  \<open>N - 1\<close> sleeps of \<open>d\<close> between the attempts, and the engine returns the error and the
  state of the attempt \<open>N\<close>; an operation that fails at the attempts before \<open>k\<close> and
  succeeds at attempt \<open>k\<close>, \<open>k\<close> at most \<open>N\<close>, is invoked \<open>k\<close> times and the engine returns
  nil. The attempts are those of the run itself, each made in the state the attempt and the
  sleep before it left.
\<close>

theorem Do_attempts:
  assumes "1 \<le> N" and "config = \<lparr>Maximum = N, Interval = d\<rparr>"
  shows "((\<forall>j. 1 \<le> j \<and> j \<le> N \<longrightarrow>
             (\<exists>e st'. callback \<lparr>Attempt = j, StatsConfig = config\<rparr>
                         (attempt_state callback sleep config 1 st (nat (j - 1)))
                       = OpReturn (Some e) False st')) \<longrightarrow>
            (\<exists>e st'. Do callback sleep config st = (RetryDone (Some e), st', attempts_log d N)
               \<and> callback \<lparr>Attempt = N, StatsConfig = config\<rparr>
                    (attempt_state callback sleep config 1 st (nat (N - 1)))
                  = OpReturn (Some e) False st'))
       \<and> (1 \<le> k \<and> k \<le> N
            \<and> (\<forall>j. 1 \<le> j \<and> j < k \<longrightarrow>
                  (\<exists>e st'. callback \<lparr>Attempt = j, StatsConfig = config\<rparr>
                              (attempt_state callback sleep config 1 st (nat (j - 1)))
                            = OpReturn (Some e) False st'))
            \<and> callback \<lparr>Attempt = k, StatsConfig = config\<rparr>
                 (attempt_state callback sleep config 1 st (nat (k - 1)))
               = OpReturn None b stk \<longrightarrow>
            Do callback sleep config st = (RetryDone None, stk, attempts_log d k))
       \<and> length (filter invoked (attempts_log d N)) = nat N
       \<and> filter slept (attempts_log d N) = replicate (nat (N - 1)) (Slept d)"
proof (intro conjI impI)
  assume fails: "\<forall>j. 1 \<le> j \<and> j \<le> N \<longrightarrow>
             (\<exists>e st'. callback \<lparr>Attempt = j, StatsConfig = config\<rparr>
                         (attempt_state callback sleep config 1 st (nat (j - 1)))
                       = OpReturn (Some e) False st')"
  have "\<forall>j<nat (N - 1). \<exists>e st'. callback \<lparr>Attempt = 1 + int j, StatsConfig = config\<rparr>
                          (attempt_state callback sleep config 1 st j) = OpReturn (Some e) False st'"
  proof (intro allI impI)
    fix j assume "j < nat (N - 1)"
    then have "1 \<le> 1 + int j \<and> 1 + int j \<le> N" by simp
    with fails have "\<exists>e st'. callback \<lparr>Attempt = 1 + int j, StatsConfig = config\<rparr>
                         (attempt_state callback sleep config 1 st (nat (1 + int j - 1)))
                       = OpReturn (Some e) False st'" by blast
    then show "\<exists>e st'. callback \<lparr>Attempt = 1 + int j, StatsConfig = config\<rparr>
                          (attempt_state callback sleep config 1 st j) = OpReturn (Some e) False st'"
      by simp
  qed
  moreover have "1 + int (nat (N - 1)) \<le> Maximum config" using assms by simp
  ultimately have "retry_loop callback sleep config 1 st =
       (case retry_loop callback sleep config (1 + int (nat (N - 1)))
               (attempt_state callback sleep config 1 st (nat (N - 1))) of
          (r, s, evs) \<Rightarrow>
            (r, s, concat (map (\<lambda>i. [Invoked i, Slept (Interval config)])
                             [1..1 + int (nat (N - 1)) - 1]) @ evs))"
    by (rule retry_loop_run)
  moreover have "1 + int (nat (N - 1)) = N" using assms(1) by simp
  ultimately have pre: "retry_loop callback sleep config 1 st =
       (case retry_loop callback sleep config N (attempt_state callback sleep config 1 st (nat (N - 1))) of
          (r, s, evs) \<Rightarrow> (r, s, concat (map (\<lambda>i. [Invoked i, Slept d]) [1..N - 1]) @ evs))"
    using assms(2) by simp
  from fails assms(1) obtain e st' where
    cb: "callback \<lparr>Attempt = N, StatsConfig = config\<rparr>
           (attempt_state callback sleep config 1 st (nat (N - 1))) = OpReturn (Some e) False st'"
    by force
  moreover have "Maximum config \<le> N" using assms(2) by simp
  ultimately have "retry_loop callback sleep config N (attempt_state callback sleep config 1 st (nat (N - 1)))
               = (RetryDone (Some e), st', [Invoked N])"
    by (simp add: retry_loop.simps[of _ _ _ N "attempt_state callback sleep config 1 st (nat (N - 1))"])
  with pre have "Do callback sleep config st = (RetryDone (Some e), st', attempts_log d N)"
    by (simp add: Do_def attempts_log_def)
  with cb show "\<exists>e st'. Do callback sleep config st = (RetryDone (Some e), st', attempts_log d N)
               \<and> callback \<lparr>Attempt = N, StatsConfig = config\<rparr>
                    (attempt_state callback sleep config 1 st (nat (N - 1)))
                  = OpReturn (Some e) False st'"
    by blast
next
  assume h: "1 \<le> k \<and> k \<le> N
            \<and> (\<forall>j. 1 \<le> j \<and> j < k \<longrightarrow>
                  (\<exists>e st'. callback \<lparr>Attempt = j, StatsConfig = config\<rparr>
                              (attempt_state callback sleep config 1 st (nat (j - 1)))
                            = OpReturn (Some e) False st'))
            \<and> callback \<lparr>Attempt = k, StatsConfig = config\<rparr>
                 (attempt_state callback sleep config 1 st (nat (k - 1)))
               = OpReturn None b stk"
  have "\<forall>j<nat (k - 1). \<exists>e st'. callback \<lparr>Attempt = 1 + int j, StatsConfig = config\<rparr>
                          (attempt_state callback sleep config 1 st j) = OpReturn (Some e) False st'"
  proof (intro allI impI)
    fix j assume "j < nat (k - 1)"
    then have "1 \<le> 1 + int j \<and> 1 + int j < k" by simp
    with h have "\<exists>e st'. callback \<lparr>Attempt = 1 + int j, StatsConfig = config\<rparr>
                         (attempt_state callback sleep config 1 st (nat (1 + int j - 1)))
                       = OpReturn (Some e) False st'" by blast
    then show "\<exists>e st'. callback \<lparr>Attempt = 1 + int j, StatsConfig = config\<rparr>
                          (attempt_state callback sleep config 1 st j) = OpReturn (Some e) False st'"
      by simp
  qed
  moreover have "1 + int (nat (k - 1)) \<le> Maximum config" using assms h by simp
  ultimately have "retry_loop callback sleep config 1 st =
       (case retry_loop callback sleep config (1 + int (nat (k - 1)))
               (attempt_state callback sleep config 1 st (nat (k - 1))) of
          (r, s, evs) \<Rightarrow>
            (r, s, concat (map (\<lambda>i. [Invoked i, Slept (Interval config)])
                             [1..1 + int (nat (k - 1)) - 1]) @ evs))"
    by (rule retry_loop_run)
  moreover have "1 + int (nat (k - 1)) = k" using h by simp
  ultimately have pre: "retry_loop callback sleep config 1 st =
       (case retry_loop callback sleep config k (attempt_state callback sleep config 1 st (nat (k - 1))) of
          (r, s, evs) \<Rightarrow> (r, s, concat (map (\<lambda>i. [Invoked i, Slept d]) [1..k - 1]) @ evs))"
    using assms(2) by simp
  from h have "retry_loop callback sleep config k (attempt_state callback sleep config 1 st (nat (k - 1)))
               = (RetryDone None, stk, [Invoked k])"
    by (simp add: retry_loop.simps[of _ _ _ k "attempt_state callback sleep config 1 st (nat (k - 1))"])
  with pre show "Do callback sleep config st = (RetryDone None, stk, attempts_log d k)"
    by (simp add: Do_def attempts_log_def)
next
  show "length (filter invoked (attempts_log d N)) = nat N"
    using assms(1) by (rule attempts_log_counts)
next
  show "filter slept (attempts_log d N) = replicate (nat (N - 1)) (Slept d)"
    using assms(1) by (rule attempts_log_counts)
qed

theorem Do_attempts_witness:
  "(1::int) \<le> 3 \<and> (1::int) \<le> 5 \<and> (3::int) \<le> 5
   \<and> Do always_failing nap \<lparr>Maximum = 3, Interval = 7\<rparr> (0, 0)
       = (RetryDone (Some ''down''), (3, 14), [Invoked 1, Slept 7, Invoked 2, Slept 7, Invoked 3])
   \<and> third_time_lucky \<lparr>Attempt = 3, StatsConfig = \<lparr>Maximum = 5, Interval = 7\<rparr>\<rparr> (2, 14)
       = OpReturn None False (3, 14)
   \<and> Do third_time_lucky nap \<lparr>Maximum = 5, Interval = 7\<rparr> (0, 0)
       = (RetryDone None, (3, 14), [Invoked 1, Slept 7, Invoked 2, Slept 7, Invoked 3])
   \<and> attempts_log 7 3 = [Invoked 1, Slept 7, Invoked 2, Slept 7, Invoked 3]"
proof -
  have n: "(1::int) \<le> 3" "(1::int) \<le> 5" "(3::int) \<le> 5" by simp_all
  have two: "j = 1 \<or> j = 2" if "1 \<le> j \<and> j < 3" for j :: int
    using that by arith
  have s: "attempt_state third_time_lucky nap \<lparr>Maximum = 5, Interval = 7\<rparr> 1 (0, 0) (nat (3 - 1)) = (2, 14)"
    "attempt_state third_time_lucky nap \<lparr>Maximum = 5, Interval = 7\<rparr> 1 (0, 0) (nat (2 - 1)) = (1, 7)"
    "attempt_state third_time_lucky nap \<lparr>Maximum = 5, Interval = 7\<rparr> 1 (0, 0) (nat (1 - 1)) = (0, 0)"
    by (simp_all add: third_time_lucky_def nap_def eval_nat_numeral)
  have f: "\<forall>j. 1 \<le> j \<and> j \<le> 3 \<longrightarrow>
             (\<exists>e st'. always_failing \<lparr>Attempt = j, StatsConfig = \<lparr>Maximum = 3, Interval = 7\<rparr>\<rparr>
                         (attempt_state always_failing nap \<lparr>Maximum = 3, Interval = 7\<rparr> 1 (0, 0) (nat (j - 1)))
                       = OpReturn (Some e) False st')"
    by (simp add: always_failing_def)
  have l1: "\<forall>j. 1 \<le> j \<and> j < 3 \<longrightarrow>
            (\<exists>e st'. third_time_lucky \<lparr>Attempt = j, StatsConfig = \<lparr>Maximum = 5, Interval = 7\<rparr>\<rparr>
                        (attempt_state third_time_lucky nap \<lparr>Maximum = 5, Interval = 7\<rparr> 1 (0, 0) (nat (j - 1)))
                      = OpReturn (Some e) False st')"
  proof (intro allI impI)
    fix j :: int assume "1 \<le> j \<and> j < 3"
    then have "j = 1 \<or> j = 2" by (rule two)
    then show "\<exists>e st'. third_time_lucky \<lparr>Attempt = j, StatsConfig = \<lparr>Maximum = 5, Interval = 7\<rparr>\<rparr>
                        (attempt_state third_time_lucky nap \<lparr>Maximum = 5, Interval = 7\<rparr> 1 (0, 0) (nat (j - 1)))
                      = OpReturn (Some e) False st'"
      using s by (auto simp: third_time_lucky_def)
  qed
  have l2: "third_time_lucky \<lparr>Attempt = 3, StatsConfig = \<lparr>Maximum = 5, Interval = 7\<rparr>\<rparr>
              (attempt_state third_time_lucky nap \<lparr>Maximum = 5, Interval = 7\<rparr> 1 (0, 0) (nat (3 - 1)))
            = OpReturn None False (3, 14)"
    using s by (simp add: third_time_lucky_def)
  have a: "attempts_log 7 3 = [Invoked 1, Slept 7, Invoked 2, Slept 7, Invoked 3]"
    by (simp add: attempts_log_def upto_rec1)
  have e1: "Do always_failing nap \<lparr>Maximum = 3, Interval = 7\<rparr> (0, 0)
       = (RetryDone (Some ''down''), (3, 14), [Invoked 1, Slept 7, Invoked 2, Slept 7, Invoked 3])"
    by (simp add: Do_def retry_loop.simps always_failing_def nap_def)
  have e2: "third_time_lucky \<lparr>Attempt = 3, StatsConfig = \<lparr>Maximum = 5, Interval = 7\<rparr>\<rparr> (2, 14)
       = OpReturn None False (3, 14)"
    by (simp add: third_time_lucky_def)
  from Do_attempts [where N = 3 and d = 7 and callback = always_failing and sleep = nap
                      and st = "(0, 0)" and k = 3, OF n(1) refl]
       Do_attempts [where N = 5 and d = 7 and callback = third_time_lucky and sleep = nap
                      and st = "(0, 0)" and k = 3 and b = False and stk = "(3, 14)", OF n(2) refl]
  show ?thesis using n f l1 l2 a e1 e2 by simp
qed

end
